theory Spec2Isabelle
  imports Main "HOL-Library.Multiset"
begin

section \<open>The todo store of \<open>database.ts\<close> over a model of the embedded engine\<close>

text \<open>
  \<open>database.ts\<close> drives the DuckDB WASM engine through a handful of asynchronous library
  calls. The functions of the module are embedded as state transformers over a
  \<open>world\<close>: the engine instance with its tables, the durable file, the clock, and a record
  of every library call issued. Each \<open>await\<close> is one step; a rejected promise or a
  \<open>throw\<close> is the \<open>Inl\<close> branch of the result.
\<close>

subsection \<open>Data\<close>

text \<open>The \<open>TodoItem\<close> interface. Its field \<open>id\<close> is called \<open>item_id\<close> here, since
  \<open>id\<close> is the identity function of HOL. Timestamps are microseconds as integers.\<close>

record TodoItem =
  item_id :: int
  content :: string
  completed :: bool
  created_at :: int
  updated_at :: int

text \<open>The SQL texts that the module sends, one constructor for each literal in the source.\<close>

datatype sql =
    CreateTodosTable   \<comment> \<open>\<open>CREATE TABLE IF NOT EXISTS todos (id INTEGER PRIMARY KEY, content TEXT NOT NULL,
                            completed BOOLEAN DEFAULT FALSE, created_at TIMESTAMP DEFAULT CURRENT_TIMESTAMP,
                            updated_at TIMESTAMP DEFAULT CURRENT_TIMESTAMP)\<close>\<close>
  | CreateTodosIdSeq   \<comment> \<open>\<open>CREATE SEQUENCE IF NOT EXISTS todos_id_seq START 1\<close>\<close>
  | InsertTodo         \<comment> \<open>\<open>INSERT INTO todos (id, content) VALUES (nextval('todos_id_seq'), ?)\<close>\<close>
  | SelectTodos        \<comment> \<open>\<open>SELECT * FROM todos ORDER BY created_at DESC\<close>\<close>
  | ToggleTodo         \<comment> \<open>\<open>UPDATE todos SET completed = NOT completed, updated_at = CURRENT_TIMESTAMP WHERE id = ?\<close>\<close>
  | DeleteTodos        \<comment> \<open>\<open>DELETE FROM todos\<close>\<close>
  | CountCompleted     \<comment> \<open>\<open>SELECT COUNT(*) as count FROM todos WHERE completed = TRUE\<close>\<close>
  | DeleteCompleted    \<comment> \<open>\<open>DELETE FROM todos WHERE completed = TRUE\<close>\<close>
  | Checkpoint         \<comment> \<open>\<open>CHECKPOINT\<close>\<close>

datatype param = PText string | PNum int

text \<open>The library calls of the module: \<open>new Worker\<close>, \<open>db.instantiate\<close>, \<open>db.open\<close>,
  \<open>db.connect\<close>, \<open>conn.query\<close>, \<open>conn.prepare\<close>, \<open>stmt.query\<close>, \<open>stmt.close\<close>,
  \<open>conn.close\<close>, \<open>db.terminate\<close>. The constructors \<open>new duckdb.ConsoleLogger()\<close> and
  \<open>new duckdb.AsyncDuckDB(logger, worker)\<close> only build objects and are not steps.\<close>

datatype call =
    NewWorker string
  | Instantiate string
  | OpenDb string
  | Connect
  | Query sql
  | Prepare sql
  | StmtQuery sql param
  | StmtClose
  | ConnClose
  | Terminate

text \<open>
  The module throws plain \<open>Error\<close> objects. \<open>NotInitializedError\<close> is
  \<open>Error('Database not initialized - call initializeDatabase() first')\<close>; \<open>EngineError c\<close> is
  whatever the library call \<open>c\<close> threw, which the record operations let through unchanged;
  \<open>BootstrapError e\<close> is \<open>Error(`Database initialization failed: ${e}`)\<close>.
\<close>

datatype error =
    NotInitializedError
  | EngineError call
  | BootstrapError error

datatype qresult = Rows "TodoItem list" | Count int | Done

datatype level = Warn | Err

datatype AsyncDuckDB = AsyncDuckDB

text \<open>
  The world. \<open>todos\<close> and \<open>todos_id_seq\<close> are the table and the sequence of the open
  database (\<open>None\<close>: not created); \<open>opfs_file\<close> is what the durable file holds;
  \<open>clock\<close> gives the engine's \<open>CURRENT_TIMESTAMP\<close> at each step and \<open>fault_plan\<close> says
  which steps the library rejects, both indexed by the number of calls made so far;
  \<open>trace\<close> lists the calls made with their outcome (\<open>True\<close>: resolved). \<open>console\<close> keeps
  the \<open>console.warn\<close> and \<open>console.error\<close> lines; \<open>console.log\<close> lines are diagnostic
  only and are left out.
\<close>

record world =
  navigator_in_globalThis :: bool
  storage_in_navigator :: bool
  getDirectory_in_storage :: bool
  opfs_file :: "TodoItem list option \<times> int option"
  clock :: "nat \<Rightarrow> int"
  fault_plan :: "nat \<Rightarrow> bool"
  trace :: "(call \<times> bool) list"
  console :: "(level \<times> string \<times> error) list"
  opened :: "string option"
  todos :: "TodoItem list option"
  todos_id_seq :: "int option"

record DatabaseState =
  db :: "AsyncDuckDB option"
  isOpfsSupported :: bool

record DatabaseOptions =
  wasmModule :: "string option"
  workerScript :: "string option"
  databasePath :: "string option"

record DuckDBBundle =
  mainModule :: string
  mainWorker :: string

type_synonym 'a io = "world \<Rightarrow> (error + 'a) \<times> world"

subsection \<open>Control flow: await, throw, try/catch/finally\<close>

definition return :: "'a \<Rightarrow> 'a io" where
  "return v = (\<lambda>w. (Inr v, w))"

definition throw :: "error \<Rightarrow> 'a io" where
  "throw e = (\<lambda>w. (Inl e, w))"

definition and_then :: "'a io \<Rightarrow> ('a \<Rightarrow> 'b io) \<Rightarrow> 'b io" where
  "and_then m f = (\<lambda>w. case m w of (Inl e, w') \<Rightarrow> (Inl e, w') | (Inr v, w') \<Rightarrow> f v w')"

definition try_catch :: "'a io \<Rightarrow> (error \<Rightarrow> 'a io) \<Rightarrow> 'a io" where
  "try_catch body handler = (\<lambda>w. case body w of (Inl e, w') \<Rightarrow> handler e w' | (Inr v, w') \<Rightarrow> (Inr v, w'))"

text \<open>\<open>finally\<close>: the block runs on every exit of the body; if it throws, its error replaces
  the outcome of the body.\<close>

definition try_finally :: "'a io \<Rightarrow> qresult io \<Rightarrow> 'a io" where
  "try_finally body fin =
     (\<lambda>w. case body w of (r, w') \<Rightarrow> (case fin w' of (Inl e, w'') \<Rightarrow> (Inl e, w'') | (Inr _, w'') \<Rightarrow> (r, w'')))"

definition console_write :: "level \<Rightarrow> string \<Rightarrow> error \<Rightarrow> unit io" where
  "console_write l msg e = (\<lambda>w. (Inr (), w\<lparr>console := console w @ [(l, msg, e)]\<rparr>))"

subsection \<open>The engine\<close>

definition starts_with :: "string \<Rightarrow> string \<Rightarrow> bool" where
  "starts_with p s = (take (length p) s = p)"

text \<open>\<open>ORDER BY created_at DESC\<close>. Rows with equal timestamps stay in storage order here; the
  engine promises no order among them.\<close>

definition order_by_created_at_desc :: "TodoItem list \<Rightarrow> TodoItem list" where
  "order_by_created_at_desc rows = sort_key (\<lambda>r. - created_at r) rows"

text \<open>\<open>CHECKPOINT\<close> writes the open database to its file when the file is durable.\<close>

definition checkpointed :: "world \<Rightarrow> world" where
  "checkpointed w =
     (case opened w of
        None \<Rightarrow> w
      | Some path \<Rightarrow> if starts_with ''opfs://'' path
                     then w\<lparr>opfs_file := (todos w, todos_id_seq w)\<rparr> else w)"

text \<open>A statement sent with \<open>conn.query\<close>, at timestamp \<open>now\<close>. \<open>None\<close>: the engine rejects
  it (the table is missing, or the statement needs a parameter).\<close>

fun exec_query :: "sql \<Rightarrow> int \<Rightarrow> world \<Rightarrow> (qresult \<times> world) option" where
  "exec_query CreateTodosTable now w =
     Some (Done, if todos w = None then w\<lparr>todos := Some []\<rparr> else w)"
| "exec_query CreateTodosIdSeq now w =
     Some (Done, if todos_id_seq w = None then w\<lparr>todos_id_seq := Some 1\<rparr> else w)"
| "exec_query SelectTodos now w =
     (case todos w of None \<Rightarrow> None | Some rows \<Rightarrow> Some (Rows (order_by_created_at_desc rows), w))"
| "exec_query DeleteTodos now w =
     (case todos w of None \<Rightarrow> None | Some rows \<Rightarrow> Some (Done, w\<lparr>todos := Some []\<rparr>))"
| "exec_query CountCompleted now w =
     (case todos w of None \<Rightarrow> None | Some rows \<Rightarrow> Some (Count (int (length (filter completed rows))), w))"
| "exec_query DeleteCompleted now w =
     (case todos w of None \<Rightarrow> None
      | Some rows \<Rightarrow> Some (Done, w\<lparr>todos := Some (filter (\<lambda>r. \<not> completed r) rows)\<rparr>))"
| "exec_query Checkpoint now w = Some (Done, checkpointed w)"
| "exec_query InsertTodo now w = None"
| "exec_query ToggleTodo now w = None"

text \<open>A prepared statement run with its parameter. The insert takes the next value of the
  sequence as the id, and is rejected when the value does not fit the 32-bit \<open>INTEGER\<close>
  column or the primary key exists already; \<open>completed\<close> and the two timestamps get their
  column defaults. The update touches every row with the given id. \<open>todoId\<close> is a
  JavaScript number; the callers pass the integer ids of listed records.\<close>

fun exec_stmt :: "sql \<Rightarrow> param \<Rightarrow> int \<Rightarrow> world \<Rightarrow> (qresult \<times> world) option" where
  "exec_stmt InsertTodo (PText c) now w =
     (case (todos w, todos_id_seq w) of
        (Some rows, Some n) \<Rightarrow>
          if n > 2147483647 \<or> n \<in> item_id ` set rows then None
          else Some (Done, w\<lparr>todos := Some (rows @ [\<lparr>item_id = n, content = c, completed = False,
                                                     created_at = now, updated_at = now\<rparr>]),
                             todos_id_seq := Some (n + 1)\<rparr>)
      | _ \<Rightarrow> None)"
| "exec_stmt ToggleTodo (PNum i) now w =
     (case todos w of
        None \<Rightarrow> None
      | Some rows \<Rightarrow>
          Some (Done, w\<lparr>todos := Some (map (\<lambda>r. if item_id r = i
                                                then r\<lparr>completed := \<not> completed r, updated_at := now\<rparr>
                                                else r) rows)\<rparr>))"
| "exec_stmt s p now w = None"

fun perform :: "call \<Rightarrow> int \<Rightarrow> world \<Rightarrow> (qresult \<times> world) option" where
  "perform (NewWorker script) now w = Some (Done, w)"
| "perform (Instantiate module) now w =
     Some (Done, w\<lparr>opened := Some '':memory:'', todos := None, todos_id_seq := None\<rparr>)"
| "perform (OpenDb path) now w =
     Some (Done, if starts_with ''opfs://'' path
                 then w\<lparr>opened := Some path, todos := fst (opfs_file w), todos_id_seq := snd (opfs_file w)\<rparr>
                 else w\<lparr>opened := Some path, todos := None, todos_id_seq := None\<rparr>)"
| "perform Connect now w = Some (Done, w)"
| "perform (Query s) now w = exec_query s now w"
| "perform (Prepare s) now w =
     (if s \<in> {InsertTodo, SelectTodos, ToggleTodo, DeleteTodos, CountCompleted, DeleteCompleted} \<and> todos w = None
         \<or> s = InsertTodo \<and> todos_id_seq w = None
      then None else Some (Done, w))"
| "perform (StmtQuery s p) now w = exec_stmt s p now w"
| "perform StmtClose now w = Some (Done, w)"
| "perform ConnClose now w = Some (Done, w)"
| "perform Terminate now w = Some (Done, w\<lparr>opened := None\<rparr>)"

text \<open>One awaited library call: it is rejected when the fault plan says so or when the engine
  cannot perform it, and it is entered in the trace either way.\<close>

definition invoke :: "call \<Rightarrow> qresult io" where
  "invoke c = (\<lambda>w.
     let k = length (trace w) in
     if fault_plan w k then (Inl (EngineError c), w\<lparr>trace := trace w @ [(c, False)]\<rparr>)
     else case perform c (clock w k) w of
            None \<Rightarrow> (Inl (EngineError c), w\<lparr>trace := trace w @ [(c, False)]\<rparr>)
          | Some (v, w') \<Rightarrow> (Inr v, w'\<lparr>trace := trace w @ [(c, True)]\<rparr>))"

subsection \<open>OPFS detection and initialization\<close>

definition isOpfsSupported_probe :: "world \<Rightarrow> bool" where
  "isOpfsSupported_probe w =
     (let hasNavigator = navigator_in_globalThis w;
          hasStorage = (hasNavigator \<and> storage_in_navigator w);
          hasGetDirectory = (hasStorage \<and> getDirectory_in_storage w);
          supported = (hasNavigator \<and> hasStorage \<and> hasGetDirectory)
      in supported)"

text \<open>JavaScript's \<open>s || d\<close> on an optional string: the empty string is falsy too.\<close>

definition or_default :: "string option \<Rightarrow> string \<Rightarrow> string" where
  "or_default s d = (case s of None \<Rightarrow> d | Some v \<Rightarrow> if v = [] then d else v)"

definition createDuckDbBundle :: "DatabaseOptions \<Rightarrow> DuckDBBundle" where
  "createDuckDbBundle options =
     \<lparr>mainModule = or_default (wasmModule options) ''/duckdb-eh.wasm'',
      mainWorker = or_default (workerScript options) ''/duckdb-browser-eh.worker.js''\<rparr>"

definition createDatabaseSchema :: "AsyncDuckDB \<Rightarrow> unit io" where
  "createDatabaseSchema d =
     and_then (invoke Connect) (\<lambda>conn.
       try_finally
         (and_then (invoke (Query CreateTodosTable)) (\<lambda>_.
          and_then (invoke (Query CreateTodosIdSeq)) (\<lambda>_.
          return ())))
         (invoke ConnClose))"

definition initializeDatabase :: "DatabaseOptions \<Rightarrow> DatabaseState io" where
  "initializeDatabase options = (\<lambda>w0.
     let opfsSupported = isOpfsSupported_probe w0 in
     try_catch
       (let bundle = createDuckDbBundle options in
        and_then (invoke (NewWorker (mainWorker bundle))) (\<lambda>worker.
        and_then (invoke (Instantiate (mainModule bundle))) (\<lambda>_.
        let dbPath = or_default (databasePath options) ''opfs://test.db'' in
        and_then
          (try_catch
             (if opfsSupported \<and> starts_with ''opfs://'' dbPath
              then and_then (invoke (OpenDb dbPath)) (\<lambda>_. return opfsSupported)
              else and_then (invoke (OpenDb '':memory:'')) (\<lambda>_. return False))
             (\<lambda>error.
                and_then (console_write Warn ''Failed to open OPFS database, falling back to in-memory:'' error) (\<lambda>_.
                and_then (invoke (OpenDb '':memory:'')) (\<lambda>_. return False))))
          (\<lambda>actuallyUsingOpfs.
        and_then (createDatabaseSchema AsyncDuckDB) (\<lambda>_.
        return \<lparr>db = Some AsyncDuckDB, isOpfsSupported = actuallyUsingOpfs\<rparr>)))))
       (\<lambda>error.
          and_then (console_write Err ''Failed to initialize database:'' error) (\<lambda>_.
          throw (BootstrapError error)))
       w0)"

subsection \<open>Todo operations\<close>

definition addTodoItem :: "DatabaseState \<Rightarrow> string \<Rightarrow> unit io" where
  "addTodoItem dbState content' =
     (case db dbState of
        None \<Rightarrow> throw NotInitializedError
      | Some d \<Rightarrow>
          and_then (invoke Connect) (\<lambda>conn.
            try_finally
              (and_then (invoke (Prepare InsertTodo)) (\<lambda>stmt.
               and_then (invoke (StmtQuery InsertTodo (PText content'))) (\<lambda>_.
               and_then (invoke StmtClose) (\<lambda>_.
               and_then (invoke (Query Checkpoint)) (\<lambda>_.
               return ())))))
              (invoke ConnClose)))"

text \<open>The loop of \<open>getTodoItems\<close> over \<open>result.numRows\<close>, reading row \<open>i\<close> column by column.\<close>

fun numRows :: "qresult \<Rightarrow> nat" where
  "numRows (Rows rs) = length rs"
| "numRows (Count n) = 1"
| "numRows Done = 0"

fun get_row :: "qresult \<Rightarrow> nat \<Rightarrow> TodoItem" where
  "get_row (Rows rs) i = rs ! i"
| "get_row r i = \<lparr>item_id = 0, content = [], completed = False, created_at = 0, updated_at = 0\<rparr>"

definition collect_todos :: "qresult \<Rightarrow> TodoItem list" where
  "collect_todos result =
     map (\<lambda>i. \<lparr>item_id = item_id (get_row result i),
               content = content (get_row result i),
               completed = completed (get_row result i),
               created_at = created_at (get_row result i),
               updated_at = updated_at (get_row result i)\<rparr>) [0..<numRows result]"

definition getTodoItems :: "DatabaseState \<Rightarrow> TodoItem list io" where
  "getTodoItems dbState =
     (case db dbState of
        None \<Rightarrow> throw NotInitializedError
      | Some d \<Rightarrow>
          and_then (invoke Connect) (\<lambda>conn.
            try_finally
              (and_then (invoke (Query SelectTodos)) (\<lambda>result.
               return (collect_todos result)))
              (invoke ConnClose)))"

definition toggleTodoItem :: "DatabaseState \<Rightarrow> int \<Rightarrow> unit io" where
  "toggleTodoItem dbState todoId =
     (case db dbState of
        None \<Rightarrow> throw NotInitializedError
      | Some d \<Rightarrow>
          and_then (invoke Connect) (\<lambda>conn.
            try_finally
              (and_then (invoke (Prepare ToggleTodo)) (\<lambda>stmt.
               and_then (invoke (StmtQuery ToggleTodo (PNum todoId))) (\<lambda>_.
               and_then (invoke StmtClose) (\<lambda>_.
               and_then (invoke (Query Checkpoint)) (\<lambda>_.
               return ())))))
              (invoke ConnClose)))"

definition clearTodoItems :: "DatabaseState \<Rightarrow> unit io" where
  "clearTodoItems dbState =
     (case db dbState of
        None \<Rightarrow> throw NotInitializedError
      | Some d \<Rightarrow>
          and_then (invoke Connect) (\<lambda>conn.
            try_finally
              (and_then (invoke (Query DeleteTodos)) (\<lambda>_.
               and_then (invoke (Query Checkpoint)) (\<lambda>_.
               return ())))
              (invoke ConnClose)))"

text \<open>\<open>countResult.getChild('count')?.get(0) as number || 0\<close>: a missing or zero count reads
  as \<open>0\<close>.\<close>

fun count_or_zero :: "qresult \<Rightarrow> int" where
  "count_or_zero (Count n) = (if n = 0 then 0 else n)"
| "count_or_zero r = 0"

definition clearCompletedTodoItems :: "DatabaseState \<Rightarrow> int io" where
  "clearCompletedTodoItems dbState =
     (case db dbState of
        None \<Rightarrow> throw NotInitializedError
      | Some d \<Rightarrow>
          and_then (invoke Connect) (\<lambda>conn.
            try_finally
              (and_then (invoke (Query CountCompleted)) (\<lambda>countResult.
               let deletedCount = count_or_zero countResult in
               and_then (invoke (Query DeleteCompleted)) (\<lambda>_.
               and_then (invoke (Query Checkpoint)) (\<lambda>_.
               return deletedCount))))
              (invoke ConnClose)))"

subsection \<open>Lifecycle\<close>

text \<open>\<open>closeDatabase\<close> assigns \<open>dbState.db = null\<close>, so it returns the state as well.\<close>

definition closeDatabase :: "DatabaseState \<Rightarrow> world \<Rightarrow> ((error + unit) \<times> DatabaseState) \<times> world" where
  "closeDatabase dbState = (\<lambda>w.
     case db dbState of
       None \<Rightarrow> ((Inr (), dbState), w)
     | Some d \<Rightarrow>
         (case and_then (invoke Connect) (\<lambda>conn.
                 and_then
                   (try_finally
                      (try_catch
                         (and_then (invoke (Query Checkpoint)) (\<lambda>_. return ()))
                         (\<lambda>error. console_write Warn ''Failed to flush database:'' error))
                      (invoke ConnClose)) (\<lambda>_.
                 and_then (invoke Terminate) (\<lambda>_.
                 return (dbState\<lparr>db := None\<rparr>)))) w of
            (Inr dbState', w') \<Rightarrow> ((Inr (), dbState'), w')
          | (Inl error, w') \<Rightarrow>
              ((Inl error, dbState), w'\<lparr>console := console w' @ [(Err, ''Error closing database:'', error)]\<rparr>)))"

subsection \<open>Vocabulary of the properties\<close>

text \<open>\<open>resolves w j\<close>: the plan does not reject the \<open>j\<close>-th library call from now (the next
  one is number \<open>0\<close>). \<open>healthy n w\<close>: it rejects none of the next \<open>n\<close>.\<close>

definition resolves :: "world \<Rightarrow> nat \<Rightarrow> bool" where
  "resolves w j = (\<not> fault_plan w (length (trace w) + j))"

definition healthy :: "nat \<Rightarrow> world \<Rightarrow> bool" where
  "healthy n w = (\<forall>j<n. resolves w j)"

text \<open>\<open>flushed w\<close>: a durable file holds exactly the open database.\<close>

definition flushed :: "world \<Rightarrow> bool" where
  "flushed w = (case opened w of
                  None \<Rightarrow> True
                | Some path \<Rightarrow> starts_with ''opfs://'' path \<longrightarrow> opfs_file w = (todos w, todos_id_seq w))"

text \<open>Concrete states for the examples: a state that was never initialized, a live state, and
  a world whose in-memory database holds three todos.\<close>

definition closed_state :: DatabaseState where
  "closed_state = \<lparr>db = None, isOpfsSupported = False\<rparr>"

definition live_state :: DatabaseState where
  "live_state = \<lparr>db = Some AsyncDuckDB, isOpfsSupported = False\<rparr>"

definition milk :: TodoItem where
  "milk = \<lparr>item_id = 1, content = ''milk'', completed = False, created_at = 10, updated_at = 10\<rparr>"

definition bread :: TodoItem where
  "bread = \<lparr>item_id = 2, content = ''bread'', completed = True, created_at = 20, updated_at = 25\<rparr>"

definition eggs :: TodoItem where
  "eggs = \<lparr>item_id = 3, content = ''eggs'', completed = True, created_at = 30, updated_at = 31\<rparr>"

definition shop :: world where
  "shop = \<lparr>navigator_in_globalThis = True, storage_in_navigator = True, getDirectory_in_storage = True,
           opfs_file = (None, None), clock = (\<lambda>k. 100 + int k), fault_plan = (\<lambda>k. False),
           trace = [], console = [], opened = Some '':memory:'',
           todos = Some [milk, bread, eggs], todos_id_seq = Some 4\<rparr>"

text \<open>The same database opened from a durable file that has not been written yet, and a state
  in durable mode.\<close>

definition durable_state :: DatabaseState where
  "durable_state = \<lparr>db = Some AsyncDuckDB, isOpfsSupported = True\<rparr>"

definition durable_shop :: world where
  "durable_shop = shop\<lparr>opened := Some ''opfs://test.db''\<rparr>"

text \<open>The same world with a clock that stands still at the time \<open>milk\<close> was last written.\<close>

definition still_shop :: world where
  "still_shop = shop\<lparr>clock := (\<lambda>k. 10)\<rparr>"

text \<open>A browser with OPFS in which the engine rejects the third library call, and the
  options that \<open>initializeDatabase()\<close> gets by default.\<close>

definition default_options :: DatabaseOptions where
  "default_options = \<lparr>wasmModule = None, workerScript = None, databasePath = None\<rparr>"

definition browser :: world where
  "browser = \<lparr>navigator_in_globalThis = True, storage_in_navigator = True, getDirectory_in_storage = True,
              opfs_file = (None, None), clock = (\<lambda>k. 100 + int k), fault_plan = (\<lambda>k. k = 2),
              trace = [], console = [], opened = None, todos = None, todos_id_seq = None\<rparr>"

text \<open>The three-todo world with an engine that rejects exactly the \<open>j\<close>-th call.\<close>

definition shop_rejecting :: "nat \<Rightarrow> world" where
  "shop_rejecting j = shop\<lparr>fault_plan := (\<lambda>k. k = j)\<rparr>"

section \<open>Properties\<close>

subsection \<open>Auxiliary facts\<close>

lemmas flow_defs = and_then_def return_def throw_def try_catch_def try_finally_def console_write_def

lemma checkpointed_fields [simp]:
  "todos (checkpointed w) = todos w"
  "todos_id_seq (checkpointed w) = todos_id_seq w"
  "trace (checkpointed w) = trace w"
  "fault_plan (checkpointed w) = fault_plan w"
  "clock (checkpointed w) = clock w"
  "opened (checkpointed w) = opened w"
  "console (checkpointed w) = console w"
  by (simp_all add: checkpointed_def split: option.splits)

lemma checkpointed_trace_update [simp]:
  "checkpointed (w\<lparr>trace := t\<rparr>) = (checkpointed w)\<lparr>trace := t\<rparr>"
  by (simp add: checkpointed_def split: option.splits)

lemma flushed_checkpointed: "flushed (checkpointed w)"
  by (simp add: flushed_def checkpointed_def split: option.splits)

lemma flushed_trace_update [simp]: "flushed (w\<lparr>trace := t\<rparr>) = flushed w"
  by (simp add: flushed_def split: option.splits)

lemma healthy_at: "healthy n w \<Longrightarrow> j < n \<Longrightarrow> \<not> fault_plan w (length (trace w) + j)"
  by (simp add: healthy_def resolves_def)

lemma healthy_mono: "healthy n w \<Longrightarrow> m \<le> n \<Longrightarrow> healthy m w"
  by (simp add: healthy_def)

lemma healthy_after:
  assumes "healthy (a + b) w" "fault_plan w' = fault_plan w" "length (trace w') = length (trace w) + a"
  shows "healthy b w'"
  using assms by (simp add: healthy_def resolves_def add.assoc)

lemma healthy3:
  assumes "healthy n w" "3 \<le> n"
  shows "\<not> fault_plan w (length (trace w))" "\<not> fault_plan w (Suc (length (trace w)))"
    "\<not> fault_plan w (Suc (Suc (length (trace w))))"
  using healthy_at[OF assms(1), of 0] healthy_at[OF assms(1), of 1] healthy_at[OF assms(1), of 2] assms(2)
  by simp_all

lemma healthy6:
  assumes "healthy n w" "6 \<le> n"
  shows "\<not> fault_plan w (Suc (Suc (Suc (length (trace w)))))"
    "\<not> fault_plan w (Suc (Suc (Suc (Suc (length (trace w))))))"
    "\<not> fault_plan w (Suc (Suc (Suc (Suc (Suc (length (trace w)))))))"
  using healthy_at[OF assms(1), of 3] healthy_at[OF assms(1), of 4] healthy_at[OF assms(1), of 5] assms(2)
  by (simp_all add: eval_nat_numeral)

lemma healthy_shop: "healthy n shop"
  by (simp add: healthy_def resolves_def shop_def)

text \<open>What a library call leaves behind.\<close>

lemma exec_query_trace: "exec_query s now w = Some (v, w') \<Longrightarrow> trace w' = trace w"
  by (cases s) (auto split: option.splits if_splits)

lemma exec_stmt_trace: "exec_stmt s p now w = Some (v, w') \<Longrightarrow> trace w' = trace w"
  by (cases "(s, p, now, w)" rule: exec_stmt.cases) (auto split: option.splits if_splits)

lemma perform_trace: "perform c now w = Some (v, w') \<Longrightarrow> trace w' = trace w"
  by (cases c) (auto split: if_splits dest: exec_query_trace exec_stmt_trace)

lemma invoke_Inl:
  "invoke c w = (Inl e, w') \<Longrightarrow> e = EngineError c \<and> w' = w\<lparr>trace := trace w @ [(c, False)]\<rparr>"
  by (auto simp: invoke_def Let_def split: if_splits option.splits)

lemma invoke_Inr:
  "invoke c w = (Inr v, w') \<Longrightarrow>
     trace w' = trace w @ [(c, True)]
     \<and> (c = Query Checkpoint \<longrightarrow> flushed w')
     \<and> (c = ConnClose \<longrightarrow> flushed w' = flushed w)"
  by (auto simp: invoke_def Let_def flushed_checkpointed split: if_splits option.splits dest: perform_trace)

lemma and_then_Inr:
  "and_then m f w = (Inr v, w') \<longleftrightarrow> (\<exists>u w1. m w = (Inr u, w1) \<and> f u w1 = (Inr v, w'))"
  by (auto simp: and_then_def split: prod.splits sum.splits)

lemma try_finally_Inr:
  "try_finally body fin w = (Inr v, w') \<longleftrightarrow> (\<exists>w1 u. body w = (Inr v, w1) \<and> fin w1 = (Inr u, w'))"
  by (auto simp: try_finally_def split: prod.splits sum.splits)

lemma return_eq: "return x w = (r, w') \<longleftrightarrow> r = Inr x \<and> w' = w"
  by (auto simp: return_def)

lemma collect_todos_Rows [simp]: "collect_todos (Rows rs) = rs"
  by (rule nth_equalityI) (simp_all add: collect_todos_def)

text \<open>The operations on a live state when no call is rejected.\<close>

lemma add_ok:
  assumes "db dbState = Some d" "todos w = Some rows" "todos_id_seq w = Some n"
    "n \<le> 2147483647" "n \<notin> item_id ` set rows" "healthy 6 w"
  shows "addTodoItem dbState c w =
     (Inr (), (checkpointed (w\<lparr>todos := Some (rows @ [\<lparr>item_id = n, content = c, completed = False,
                     created_at = clock w (Suc (Suc (length (trace w)))),
                     updated_at = clock w (Suc (Suc (length (trace w))))\<rparr>]),
                   todos_id_seq := Some (n + 1)\<rparr>))
        \<lparr>trace := trace w @ [(Connect, True), (Prepare InsertTodo, True), (StmtQuery InsertTodo (PText c), True),
            (StmtClose, True), (Query Checkpoint, True), (ConnClose, True)]\<rparr>)"
  using assms(1-5) healthy3[OF assms(6)] healthy6[OF assms(6)]
  by (simp add: addTodoItem_def flow_defs invoke_def Let_def)

lemma list_ok:
  assumes "db dbState = Some d" "todos w = Some rows" "healthy 3 w"
  shows "getTodoItems dbState w =
     (Inr (order_by_created_at_desc rows),
      w\<lparr>trace := trace w @ [(Connect, True), (Query SelectTodos, True), (ConnClose, True)]\<rparr>)"
  using assms(1,2) healthy3[OF assms(3)]
  by (simp add: getTodoItems_def flow_defs invoke_def Let_def)

lemma toggle_ok:
  assumes "db dbState = Some d" "todos w = Some rows" "healthy 6 w"
  shows "toggleTodoItem dbState i w =
     (Inr (), (checkpointed (w\<lparr>todos := Some (map (\<lambda>r. if item_id r = i
                    then r\<lparr>completed := \<not> completed r, updated_at := clock w (Suc (Suc (length (trace w))))\<rparr>
                    else r) rows)\<rparr>))
        \<lparr>trace := trace w @ [(Connect, True), (Prepare ToggleTodo, True), (StmtQuery ToggleTodo (PNum i), True),
            (StmtClose, True), (Query Checkpoint, True), (ConnClose, True)]\<rparr>)"
  using assms(1,2) healthy3[OF assms(3)] healthy6[OF assms(3)]
  by (simp add: toggleTodoItem_def flow_defs invoke_def Let_def)

lemma clear_ok:
  assumes "db dbState = Some d" "todos w = Some rows" "healthy 4 w"
  shows "clearTodoItems dbState w =
     (Inr (), (checkpointed (w\<lparr>todos := Some []\<rparr>))
        \<lparr>trace := trace w @ [(Connect, True), (Query DeleteTodos, True), (Query Checkpoint, True), (ConnClose, True)]\<rparr>)"
  using assms(1,2) healthy3[OF assms(3)] healthy_at[OF assms(3), of 3]
  by (simp add: clearTodoItems_def flow_defs invoke_def Let_def eval_nat_numeral)

lemma clearCompleted_ok:
  assumes "db dbState = Some d" "todos w = Some rows" "healthy 5 w"
  shows "clearCompletedTodoItems dbState w =
     (Inr (int (length (filter completed rows))),
      (checkpointed (w\<lparr>todos := Some (filter (\<lambda>r. \<not> completed r) rows)\<rparr>))
        \<lparr>trace := trace w @ [(Connect, True), (Query CountCompleted, True), (Query DeleteCompleted, True),
           (Query Checkpoint, True), (ConnClose, True)]\<rparr>)"
  using assms(1,2) healthy3[OF assms(3)] healthy_at[OF assms(3), of 3] healthy_at[OF assms(3), of 4]
  by (simp add: clearCompletedTodoItems_def flow_defs invoke_def Let_def eval_nat_numeral)

lemma live_db: "db live_state = Some AsyncDuckDB"
  by (simp add: live_state_def)

lemma shop_todos: "todos shop = Some [milk, bread, eggs]"
  by (simp add: shop_def)

text \<open>The order of a listing.\<close>

lemma order_by_mset: "mset (order_by_created_at_desc rows) = mset rows"
  by (simp add: order_by_created_at_desc_def)

lemma order_by_sorted: "sorted_wrt (\<lambda>a b. created_at b \<le> created_at a) (order_by_created_at_desc rows)"
proof -
  have "sorted (map (\<lambda>r. - created_at r) (order_by_created_at_desc rows))"
    by (simp add: order_by_created_at_desc_def)
  then show ?thesis
    by (simp add: sorted_wrt_map)
qed

lemma order_by_strict:
  assumes "distinct (map created_at rows)"
  shows "sorted_wrt (\<lambda>a b. created_at b < created_at a) (order_by_created_at_desc rows)"
proof -
  let ?rs = "order_by_created_at_desc rows"
  have "mset (map created_at ?rs) = mset (map created_at rows)"
    by (simp add: order_by_mset)
  with assms have "distinct (map created_at ?rs)"
    by (metis mset_eq_imp_distinct_iff)
  then have "distinct (map (\<lambda>r. - created_at r) ?rs)"
    by (simp add: distinct_map inj_on_def)
  moreover have "sorted (map (\<lambda>r. - created_at r) ?rs)"
    by (simp add: order_by_created_at_desc_def)
  ultimately have "sorted_wrt (<) (map (\<lambda>r. - created_at r) ?rs)"
    by (simp add: strict_sorted_iff)
  then show ?thesis
    by (simp add: sorted_wrt_map)
qed

lemma insort_key_last:
  "\<forall>y\<in>set ys. f y < f x \<Longrightarrow> insort_key f x ys = ys @ [x]"
  by (induction ys) auto

lemma order_by_chronological:
  assumes "sorted_wrt (<) (map created_at rows)"
  shows "order_by_created_at_desc rows = rev rows"
  using assms
proof (induction rows)
  case Nil
  then show ?case by (simp add: order_by_created_at_desc_def)
next
  case (Cons r rows)
  then have "order_by_created_at_desc rows = rev rows" and "\<forall>y\<in>set rows. created_at r < created_at y"
    by simp_all
  then show ?case
    by (simp add: order_by_created_at_desc_def insort_key_last)
qed

lemma order_by_Nil: "order_by_created_at_desc [] = []"
  by (simp add: order_by_created_at_desc_def)

lemma order_by_length: "length (order_by_created_at_desc rows) = length rows"
  by (simp add: order_by_created_at_desc_def)

lemma order_by_set: "set (order_by_created_at_desc rows) = set rows"
  by (simp add: order_by_created_at_desc_def)

lemma length_filter_not_completed:
  "length (filter (\<lambda>r. \<not> completed r) rows) = length rows - length (filter completed rows)"
  using sum_length_filter_compl[of completed rows] by simp

lemma toggle_absent:
  "i \<notin> item_id ` set rows \<Longrightarrow>
   map (\<lambda>r. if item_id r = i then r\<lparr>completed := \<not> completed r, updated_at := t\<rparr> else r) rows = rows"
  by (induction rows) auto

lemma toggle_toggle:
  "(if item_id (if item_id r = i then r\<lparr>completed := \<not> completed r, updated_at := t1\<rparr> else r) = i
    then (if item_id r = i then r\<lparr>completed := \<not> completed r, updated_at := t1\<rparr> else r)
           \<lparr>completed := \<not> completed (if item_id r = i then r\<lparr>completed := \<not> completed r, updated_at := t1\<rparr> else r),
            updated_at := t2\<rparr>
    else (if item_id r = i then r\<lparr>completed := \<not> completed r, updated_at := t1\<rparr> else r))
   = (if item_id r = i then r\<lparr>updated_at := t2\<rparr> else r)"
  by simp

text \<open>The calls behind a mutation that returned without error.\<close>

lemma add_trace:
  assumes "addTodoItem dbState c w = (Inr r, w')"
  shows "trace w' = trace w @ [(Connect, True), (Prepare InsertTodo, True), (StmtQuery InsertTodo (PText c), True),
            (StmtClose, True), (Query Checkpoint, True), (ConnClose, True)] \<and> flushed w'"
proof (cases "db dbState")
  case None
  with assms show ?thesis by (simp add: addTodoItem_def throw_def)
next
  case (Some d)
  with assms show ?thesis
    apply (simp add: addTodoItem_def and_then_Inr try_finally_Inr return_eq)
    apply clarify
    apply (drule invoke_Inr)+
    apply simp
    done
qed

lemma toggle_trace:
  assumes "toggleTodoItem dbState i w = (Inr r, w')"
  shows "trace w' = trace w @ [(Connect, True), (Prepare ToggleTodo, True), (StmtQuery ToggleTodo (PNum i), True),
            (StmtClose, True), (Query Checkpoint, True), (ConnClose, True)] \<and> flushed w'"
proof (cases "db dbState")
  case None
  with assms show ?thesis by (simp add: toggleTodoItem_def throw_def)
next
  case (Some d)
  with assms show ?thesis
    apply (simp add: toggleTodoItem_def and_then_Inr try_finally_Inr return_eq)
    apply clarify
    apply (drule invoke_Inr)+
    apply simp
    done
qed

lemma clear_trace:
  assumes "clearTodoItems dbState w = (Inr r, w')"
  shows "trace w' = trace w @ [(Connect, True), (Query DeleteTodos, True), (Query Checkpoint, True), (ConnClose, True)]
       \<and> flushed w'"
proof (cases "db dbState")
  case None
  with assms show ?thesis by (simp add: clearTodoItems_def throw_def)
next
  case (Some d)
  with assms show ?thesis
    apply (simp add: clearTodoItems_def and_then_Inr try_finally_Inr return_eq)
    apply clarify
    apply (drule invoke_Inr)+
    apply simp
    done
qed

lemma clearCompleted_trace:
  assumes "clearCompletedTodoItems dbState w = (Inr r, w')"
  shows "trace w' = trace w @ [(Connect, True), (Query CountCompleted, True), (Query DeleteCompleted, True),
           (Query Checkpoint, True), (ConnClose, True)]
       \<and> flushed w'"
proof (cases "db dbState")
  case None
  with assms show ?thesis by (simp add: clearCompletedTodoItems_def throw_def)
next
  case (Some d)
  with assms show ?thesis
    apply (simp add: clearCompletedTodoItems_def Let_def and_then_Inr try_finally_Inr return_eq)
    apply clarify
    apply (drule invoke_Inr)+
    apply simp
    done
qed

text \<open>Shutdown of a live state: the connection opens and closes and the engine terminates,
  whatever the checkpoint in between does.\<close>

lemma close_ok:
  assumes "db dbState = Some d" "resolves w 0" "resolves w 2" "resolves w 3"
  shows "closeDatabase dbState w =
     ((Inr (), dbState\<lparr>db := None\<rparr>),
      (if resolves w 1 then checkpointed w
       else w\<lparr>console := console w @ [(Warn, ''Failed to flush database:'', EngineError (Query Checkpoint))]\<rparr>)
      \<lparr>opened := None,
        trace := trace w @ [(Connect, True), (Query Checkpoint, resolves w 1), (ConnClose, True), (Terminate, True)]\<rparr>)"
  using assms
  by (simp add: closeDatabase_def flow_defs invoke_def Let_def resolves_def eval_nat_numeral)

lemma close_Inr_null:
  assumes "closeDatabase s w0 = ((Inr r, s'), w)"
  shows "db s' = None"
proof (cases "db s")
  case None
  with assms show ?thesis by (simp add: closeDatabase_def)
next
  case (Some d)
  with assms show ?thesis
    by (auto simp: closeDatabase_def and_then_def return_def try_finally_def
             split: prod.splits sum.splits)
qed

text \<open>Initialization when the durable open is rejected.\<close>

lemma init_fallback:
  assumes "isOpfsSupported_probe w"
    and "dbPath = or_default (databasePath options) ''opfs://test.db''"
    and "starts_with ''opfs://'' dbPath"
    and "resolves w 0" "resolves w 1" "\<not> resolves w 2"
    and "resolves w 3" "resolves w 4" "resolves w 5" "resolves w 6" "resolves w 7"
  shows "\<exists>w'. initializeDatabase options w = (Inr \<lparr>db = Some AsyncDuckDB, isOpfsSupported = False\<rparr>, w')
     \<and> opened w' = Some '':memory:'' \<and> todos w' = Some [] \<and> todos_id_seq w' = Some 1
     \<and> console w' = console w @ [(Warn, ''Failed to open OPFS database, falling back to in-memory:'',
                                     EngineError (OpenDb dbPath))]
     \<and> trace w' = trace w @ [(NewWorker (mainWorker (createDuckDbBundle options)), True),
                               (Instantiate (mainModule (createDuckDbBundle options)), True),
                               (OpenDb dbPath, False), (OpenDb '':memory:'', True), (Connect, True),
                               (Query CreateTodosTable, True), (Query CreateTodosIdSeq, True), (ConnClose, True)]"
  using assms
  by (simp add: initializeDatabase_def createDatabaseSchema_def flow_defs invoke_def Let_def resolves_def
                eval_nat_numeral starts_with_def)

lemma init_fallback_outcomes:
  assumes "isOpfsSupported_probe w"
    and "dbPath = or_default (databasePath options) ''opfs://test.db''"
    and "starts_with ''opfs://'' dbPath"
    and "resolves w 0" "resolves w 1" "\<not> resolves w 2"
  shows "(\<exists>w'. initializeDatabase options w = (Inr \<lparr>db = Some AsyncDuckDB, isOpfsSupported = False\<rparr>, w')
            \<and> opened w' = Some '':memory:'' \<and> todos w' = Some [] \<and> todos_id_seq w' = Some 1)
       \<or> (\<exists>c w'. initializeDatabase options w = (Inl (BootstrapError (EngineError c)), w')
            \<and> c \<in> {OpenDb '':memory:'', Connect, Query CreateTodosTable, Query CreateTodosIdSeq, ConnClose})"
  using assms
  by (simp add: initializeDatabase_def createDatabaseSchema_def flow_defs invoke_def Let_def resolves_def
                eval_nat_numeral starts_with_def)

text \<open>Shutdown when the connection or the engine fails.\<close>

lemma close_connect_fails:
  assumes "db dbState = Some d" "\<not> resolves w 0"
  shows "\<exists>w'. closeDatabase dbState w = ((Inl (EngineError Connect), dbState), w')
     \<and> trace w' = trace w @ [(Connect, False)]
     \<and> console w' = console w @ [(Err, ''Error closing database:'', EngineError Connect)]"
  using assms
  by (simp add: closeDatabase_def flow_defs invoke_def Let_def resolves_def)

lemma close_connclose_fails:
  assumes "db dbState = Some d" "resolves w 0" "\<not> resolves w 2"
  shows "\<exists>w'. closeDatabase dbState w = ((Inl (EngineError ConnClose), dbState), w')
     \<and> trace w' = trace w @ [(Connect, True), (Query Checkpoint, resolves w 1), (ConnClose, False)]"
  using assms
  by (simp add: closeDatabase_def flow_defs invoke_def Let_def resolves_def eval_nat_numeral)

lemma close_terminate_fails:
  assumes "db dbState = Some d" "resolves w 0" "resolves w 2" "\<not> resolves w 3"
  shows "\<exists>w'. closeDatabase dbState w = ((Inl (EngineError Terminate), dbState), w')
     \<and> trace w' = trace w @ [(Connect, True), (Query Checkpoint, resolves w 1), (ConnClose, True), (Terminate, False)]"
  using assms
  by (simp add: closeDatabase_def flow_defs invoke_def Let_def resolves_def eval_nat_numeral)

lemma close_result_shape:
  assumes "db dbState = Some d" "closeDatabase dbState w = ((r, s'), w')"
  shows "(r = Inr () \<and> s' = dbState\<lparr>db := None\<rparr>) \<or> (\<exists>e. r = Inl e \<and> s' = dbState)"
  using assms
  by (auto simp: closeDatabase_def and_then_def return_def try_finally_def
           split: prod.splits sum.splits)

text \<open>Errors of the operations on a live state come from the library calls.\<close>

lemma and_then_InlE:
  assumes "and_then m f w = (Inl e, w')"
  obtains "m w = (Inl e, w')" | u w1 where "m w = (Inr u, w1)" "f u w1 = (Inl e, w')"
  using assms by (auto simp: and_then_def split: prod.splits sum.splits)

lemma try_finally_InlE:
  assumes "try_finally body fin w = (Inl e, w')"
  obtains r w1 where "body w = (r, w1)" "fin w1 = (Inl e, w')"
        | u w1 where "body w = (Inl e, w1)" "fin w1 = (Inr u, w')"
  using assms by (auto simp: try_finally_def split: prod.splits sum.splits)

lemma add_errors:
  assumes "db dbState = Some d" "addTodoItem dbState c w = (Inl e, w')"
  shows "\<exists>call. e = EngineError call"
  using assms
  by (auto simp: addTodoItem_def return_def elim!: and_then_InlE try_finally_InlE dest!: invoke_Inl)

lemma list_errors:
  assumes "db dbState = Some d" "getTodoItems dbState w = (Inl e, w')"
  shows "\<exists>call. e = EngineError call"
  using assms
  by (auto simp: getTodoItems_def return_def elim!: and_then_InlE try_finally_InlE dest!: invoke_Inl)

lemma toggle_errors:
  assumes "db dbState = Some d" "toggleTodoItem dbState i w = (Inl e, w')"
  shows "\<exists>call. e = EngineError call"
  using assms
  by (auto simp: toggleTodoItem_def return_def elim!: and_then_InlE try_finally_InlE dest!: invoke_Inl)

lemma clear_errors:
  assumes "db dbState = Some d" "clearTodoItems dbState w = (Inl e, w')"
  shows "\<exists>call. e = EngineError call"
  using assms
  by (auto simp: clearTodoItems_def return_def elim!: and_then_InlE try_finally_InlE dest!: invoke_Inl)

lemma clearCompleted_errors:
  assumes "db dbState = Some d" "clearCompletedTodoItems dbState w = (Inl e, w')"
  shows "\<exists>call. e = EngineError call"
  using assms
  by (auto simp: clearCompletedTodoItems_def Let_def return_def elim!: and_then_InlE try_finally_InlE dest!: invoke_Inl)

lemma live_not_rejected:
  assumes "db dbState = Some d"
  shows "fst (addTodoItem dbState c w) \<noteq> Inl NotInitializedError"
    "fst (getTodoItems dbState w) \<noteq> Inl NotInitializedError"
    "fst (toggleTodoItem dbState i w) \<noteq> Inl NotInitializedError"
    "fst (clearTodoItems dbState w) \<noteq> Inl NotInitializedError"
    "fst (clearCompletedTodoItems dbState w) \<noteq> Inl NotInitializedError"
  using add_errors[OF assms, of c w NotInitializedError] list_errors[OF assms, of w NotInitializedError]
    toggle_errors[OF assms, of i w NotInitializedError] clear_errors[OF assms, of w NotInitializedError]
    clearCompleted_errors[OF assms, of w NotInitializedError]
  by (metis error.distinct(1) prod.collapse)+

subsection \<open>Operations on a null engine handle\<close>

text \<open>
  C3. On a state whose engine handle is null, whether it was never initialized or is the state
  that a completed shutdown returned, each of the five record operations fails with
  \<open>NotInitializedError\<close> and leaves the world as it was: no library call is made. The two
  cases are rejected in the same way.
\<close>

theorem null_handle_rejected:
  assumes "db dbState = None \<or> (\<exists>s w0. closeDatabase s w0 = ((Inr (), dbState), w))"
  shows "addTodoItem dbState c w = (Inl NotInitializedError, w)
       \<and> getTodoItems dbState w = (Inl NotInitializedError, w)
       \<and> toggleTodoItem dbState i w = (Inl NotInitializedError, w)
       \<and> clearTodoItems dbState w = (Inl NotInitializedError, w)
       \<and> clearCompletedTodoItems dbState w = (Inl NotInitializedError, w)"
proof -
  from assms have "db dbState = None"
    by (auto dest: close_Inr_null)
  then show ?thesis
    by (simp add: addTodoItem_def getTodoItems_def toggleTodoItem_def clearTodoItems_def
                  clearCompletedTodoItems_def throw_def)
qed

theorem null_handle_rejected_witness:
  "db closed_state = None
   \<and> addTodoItem closed_state ''tea'' shop = (Inl NotInitializedError, shop)
   \<and> getTodoItems closed_state shop = (Inl NotInitializedError, shop)
   \<and> toggleTodoItem closed_state 1 shop = (Inl NotInitializedError, shop)
   \<and> clearTodoItems closed_state shop = (Inl NotInitializedError, shop)
   \<and> clearCompletedTodoItems closed_state shop = (Inl NotInitializedError, shop)
   \<and> fst (closeDatabase live_state shop) = (Inr (), closed_state)
   \<and> getTodoItems closed_state (snd (closeDatabase live_state shop))
       = (Inl NotInitializedError, snd (closeDatabase live_state shop))"
proof -
  have n: "db closed_state = None"
    by (simp add: closed_state_def)
  have f: "fst (closeDatabase live_state shop) = (Inr (), closed_state)"
    using close_ok[of live_state AsyncDuckDB shop]
    by (simp add: live_state_def closed_state_def resolves_def shop_def)
  then have c: "closeDatabase live_state shop = ((Inr (), closed_state), snd (closeDatabase live_state shop))"
    by (metis prod.collapse)
  note before = null_handle_rejected[of closed_state shop "''tea''" 1, OF disjI1, OF n]
  note after = null_handle_rejected[of closed_state "snd (closeDatabase live_state shop)" "''tea''" 1,
      OF disjI2, OF exI, OF exI, OF c]
  show ?thesis
    using n f before after by blast
qed

subsection \<open>The checkpoint after every mutation\<close>

text \<open>
  C2. Whenever \<open>addTodoItem\<close>, \<open>toggleTodoItem\<close>, \<open>clearTodoItems\<close> or
  \<open>clearCompletedTodoItems\<close> returns without error, the calls it made are exactly: connect,
  the mutation statement, \<open>CHECKPOINT\<close>, close, each resolved and in this order, and a durable
  file then holds the mutated database. Nothing is assumed about \<open>isOpfsSupported\<close>: the
  checkpoint is issued in durable and in volatile mode alike.
\<close>

theorem mutation_then_checkpoint:
  "(addTodoItem dbState c w = (Inr r1, w1) \<longrightarrow>
      trace w1 = trace w @ [(Connect, True), (Prepare InsertTodo, True), (StmtQuery InsertTodo (PText c), True),
                            (StmtClose, True), (Query Checkpoint, True), (ConnClose, True)]
      \<and> flushed w1)
 \<and> (toggleTodoItem dbState i w = (Inr r2, w2) \<longrightarrow>
      trace w2 = trace w @ [(Connect, True), (Prepare ToggleTodo, True), (StmtQuery ToggleTodo (PNum i), True),
                            (StmtClose, True), (Query Checkpoint, True), (ConnClose, True)]
      \<and> flushed w2)
 \<and> (clearTodoItems dbState w = (Inr r3, w3) \<longrightarrow>
      trace w3 = trace w @ [(Connect, True), (Query DeleteTodos, True), (Query Checkpoint, True), (ConnClose, True)]
      \<and> flushed w3)
 \<and> (clearCompletedTodoItems dbState w = (Inr r4, w4) \<longrightarrow>
      trace w4 = trace w @ [(Connect, True), (Query CountCompleted, True), (Query DeleteCompleted, True),
                            (Query Checkpoint, True), (ConnClose, True)]
      \<and> flushed w4)"
  using add_trace[of dbState c w r1 w1] toggle_trace[of dbState i w r2 w2]
    clear_trace[of dbState w r3 w3] clearCompleted_trace[of dbState w r4 w4]
  by blast

theorem mutation_then_checkpoint_witness:
  "(\<exists>w1. addTodoItem durable_state ''tea'' durable_shop = (Inr (), w1)
      \<and> trace w1 = [(Connect, True), (Prepare InsertTodo, True), (StmtQuery InsertTodo (PText ''tea''), True),
                     (StmtClose, True), (Query Checkpoint, True), (ConnClose, True)]
      \<and> flushed w1 \<and> opfs_file w1 = (todos w1, todos_id_seq w1) \<and> opfs_file w1 \<noteq> opfs_file durable_shop)
 \<and> (\<exists>w2. toggleTodoItem live_state 2 shop = (Inr (), w2)
      \<and> trace w2 = [(Connect, True), (Prepare ToggleTodo, True), (StmtQuery ToggleTodo (PNum 2), True),
                     (StmtClose, True), (Query Checkpoint, True), (ConnClose, True)]
      \<and> flushed w2)
 \<and> (\<exists>w3. clearTodoItems live_state shop = (Inr (), w3)
      \<and> trace w3 = [(Connect, True), (Query DeleteTodos, True), (Query Checkpoint, True), (ConnClose, True)]
      \<and> flushed w3)
 \<and> (\<exists>w4. clearCompletedTodoItems durable_state durable_shop = (Inr 2, w4)
      \<and> trace w4 = [(Connect, True), (Query CountCompleted, True), (Query DeleteCompleted, True),
                     (Query Checkpoint, True), (ConnClose, True)]
      \<and> flushed w4 \<and> opfs_file w4 = (todos w4, todos_id_seq w4) \<and> opfs_file w4 \<noteq> opfs_file durable_shop)"
proof -
  have l: "db durable_state = Some AsyncDuckDB"
    by (simp add: durable_state_def)
  have t: "todos shop = Some [milk, bread, eggs]" "trace shop = []"
    by (simp_all add: shop_def)
  have u: "todos durable_shop = Some [milk, bread, eggs]" "todos_id_seq durable_shop = Some 4"
    "trace durable_shop = []" "opened durable_shop = Some ''opfs://test.db''"
    "opfs_file durable_shop = (None, None)"
    by (simp_all add: durable_shop_def shop_def)
  have h: "healthy n durable_shop" for n
    by (simp add: healthy_def resolves_def durable_shop_def shop_def)
  have i: "(4::int) \<le> 2147483647" "4 \<notin> item_id ` set [milk, bread, eggs]"
    by (simp_all add: milk_def bread_def eggs_def)
  obtain w1 where a: "addTodoItem durable_state ''tea'' durable_shop = (Inr (), w1)"
    and a': "opened w1 = Some ''opfs://test.db''" "todos w1 \<noteq> None"
    using add_ok[OF l u(1,2) i h, of "''tea''"] u(4) by simp
  obtain w2 where b: "toggleTodoItem live_state 2 shop = (Inr (), w2)"
    using toggle_ok[OF live_db t(1) healthy_shop] by blast
  obtain w3 where c: "clearTodoItems live_state shop = (Inr (), w3)"
    using clear_ok[OF live_db t(1) healthy_shop] by blast
  obtain w4 where d: "clearCompletedTodoItems durable_state durable_shop = (Inr 2, w4)"
    and d': "opened w4 = Some ''opfs://test.db''" "todos w4 \<noteq> None"
    using clearCompleted_ok[OF l u(1) h] u(4) by (simp add: milk_def bread_def eggs_def)
  note m1 = mutation_then_checkpoint[of durable_state "''tea''" durable_shop "()" w1 2 "()" _ "()" _ 2 w4]
  note m2 = mutation_then_checkpoint[of live_state "''tea''" shop "()" _ 2 "()" w2 "()" w3 2 _]
  from m1 a d have f: "trace w1 = trace durable_shop @ [(Connect, True), (Prepare InsertTodo, True),
        (StmtQuery InsertTodo (PText ''tea''), True), (StmtClose, True), (Query Checkpoint, True), (ConnClose, True)]"
      "flushed w1"
      "trace w4 = trace durable_shop @ [(Connect, True), (Query CountCompleted, True), (Query DeleteCompleted, True),
        (Query Checkpoint, True), (ConnClose, True)]"
      "flushed w4"
    by simp_all
  from f(2,4) a' d' have g: "opfs_file w1 = (todos w1, todos_id_seq w1)" "opfs_file w4 = (todos w4, todos_id_seq w4)"
    by (simp_all add: flushed_def starts_with_def)
  from m2 b c have k: "trace w2 = trace shop @ [(Connect, True), (Prepare ToggleTodo, True),
        (StmtQuery ToggleTodo (PNum 2), True), (StmtClose, True), (Query Checkpoint, True), (ConnClose, True)]"
      "flushed w2"
      "trace w3 = trace shop @ [(Connect, True), (Query DeleteTodos, True), (Query Checkpoint, True), (ConnClose, True)]"
      "flushed w3"
    by simp_all
  from g a'(2) d'(2) u(5) have n: "opfs_file w1 \<noteq> opfs_file durable_shop" "opfs_file w4 \<noteq> opfs_file durable_shop"
    by auto
  show ?thesis
    using a b c d f g k n t(2) u(3) by simp
qed

subsection \<open>Listing\<close>

text \<open>
  C4. On a live state whose calls resolve, \<open>getTodoItems\<close> returns every stored record,
  each once, ordered by \<open>created_at\<close> descending, and leaves the table as it is. When the
  timestamps are distinct the order is strictly descending; records stored in the order of
  their (distinct, increasing) insertion times come back in exactly the reverse order; an empty
  table gives the empty list and no error.
\<close>

theorem list_newest_first:
  assumes "db dbState = Some d" "todos w = Some rows" "healthy 3 w"
  shows "\<exists>rs w'. getTodoItems dbState w = (Inr rs, w') \<and> todos w' = Some rows
     \<and> mset rs = mset rows
     \<and> sorted_wrt (\<lambda>a b. created_at b \<le> created_at a) rs
     \<and> (distinct (map created_at rows) \<longrightarrow> sorted_wrt (\<lambda>a b. created_at b < created_at a) rs)
     \<and> (sorted_wrt (<) (map created_at rows) \<longrightarrow> rs = rev rows)
     \<and> (rows = [] \<longrightarrow> rs = [])"
  using list_ok[OF assms] assms(2)
  by (simp add: order_by_mset order_by_sorted order_by_strict order_by_chronological order_by_Nil)

theorem list_newest_first_witness:
  "db live_state = Some AsyncDuckDB \<and> todos shop = Some [milk, bread, eggs] \<and> healthy 3 shop
   \<and> distinct (map created_at [milk, bread, eggs]) \<and> sorted_wrt (<) (map created_at [milk, bread, eggs])
   \<and> fst (getTodoItems live_state shop) = Inr [eggs, bread, milk]
   \<and> todos (shop\<lparr>todos := Some []\<rparr>) = Some [] \<and> healthy 3 (shop\<lparr>todos := Some []\<rparr>)
   \<and> fst (getTodoItems live_state (shop\<lparr>todos := Some []\<rparr>)) = Inr []"
proof -
  have c: "distinct (map created_at [milk, bread, eggs])" "sorted_wrt (<) (map created_at [milk, bread, eggs])"
    by (simp_all add: milk_def bread_def eggs_def)
  have e: "todos (shop\<lparr>todos := Some []\<rparr>) = Some []" "healthy 3 (shop\<lparr>todos := Some []\<rparr>)"
    by (simp_all add: healthy_def resolves_def shop_def)
  show ?thesis
    using live_db shop_todos healthy_shop[of 3] c e
      list_newest_first[OF live_db shop_todos healthy_shop]
      list_newest_first[OF live_db e]
    by auto
qed

subsection \<open>Clearing completed todos\<close>

text \<open>
  C6. On a live state whose calls resolve and whose table holds \<open>N\<close> records, \<open>M\<close> of them
  completed, \<open>clearCompletedTodoItems\<close> returns \<open>M\<close>, and the \<open>getTodoItems\<close> that follows
  returns \<open>N - M\<close> records, none of them completed.
\<close>

theorem clearCompleted_returns_count:
  assumes "db dbState = Some d" "todos w = Some rows" "healthy 8 w"
  shows "\<exists>w' rs w''. clearCompletedTodoItems dbState w = (Inr (int (length (filter completed rows))), w')
     \<and> getTodoItems dbState w' = (Inr rs, w'')
     \<and> length rs = length rows - length (filter completed rows)
     \<and> (\<forall>r\<in>set rs. \<not> completed r)"
proof -
  define w' where "w' = snd (clearCompletedTodoItems dbState w)"
  have h5: "healthy 5 w"
    using healthy_mono[OF assms(3)] by simp
  note run = clearCompleted_ok[OF assms(1,2) h5]
  have c: "clearCompletedTodoItems dbState w = (Inr (int (length (filter completed rows))), w')"
    by (simp add: w'_def run)
  have t: "todos w' = Some (filter (\<lambda>r. \<not> completed r) rows)"
    by (simp add: w'_def run)
  have "healthy 3 w'"
    by (rule healthy_after[of 5 3 w]) (use assms(3) in \<open>simp_all add: w'_def run\<close>)
  from list_ok[OF assms(1) t this] c show ?thesis
    by (simp add: order_by_length order_by_set length_filter_not_completed)
qed

theorem clearCompleted_returns_count_witness:
  "db live_state = Some AsyncDuckDB \<and> todos shop = Some [milk, bread, eggs] \<and> healthy 8 shop
   \<and> length [milk, bread, eggs] = 3 \<and> length (filter completed [milk, bread, eggs]) = 2
   \<and> (\<exists>w' rs w''. clearCompletedTodoItems live_state shop = (Inr 2, w')
         \<and> getTodoItems live_state w' = (Inr rs, w'') \<and> length rs = 1 \<and> (\<forall>r\<in>set rs. \<not> completed r))"
proof -
  have n: "length [milk, bread, eggs] = 3" "length (filter completed [milk, bread, eggs]) = 2"
    by (simp_all add: milk_def bread_def eggs_def)
  show ?thesis
    using live_db shop_todos healthy_shop[of 8] n
      clearCompleted_returns_count[OF live_db shop_todos healthy_shop]
    by simp
qed

subsection \<open>Toggling\<close>

text \<open>
  C8. On a live state whose calls resolve, \<open>toggleTodoItem\<close> with an id that no stored record
  has returns without error and leaves the table unchanged: \<open>getTodoItems\<close> returns the same
  records after the call as before it.
\<close>

theorem toggle_missing_id_is_noop:
  assumes "db dbState = Some d" "todos w = Some rows" "i \<notin> item_id ` set rows" "healthy 9 w"
  shows "\<exists>w' rs w1 w2. toggleTodoItem dbState i w = (Inr (), w') \<and> todos w' = Some rows
     \<and> getTodoItems dbState w = (Inr rs, w1) \<and> getTodoItems dbState w' = (Inr rs, w2)"
proof -
  define w' where "w' = snd (toggleTodoItem dbState i w)"
  have h6: "healthy 6 w" and h3: "healthy 3 w"
    using healthy_mono[OF assms(4)] by simp_all
  note run = toggle_ok[OF assms(1,2) h6]
  have c: "toggleTodoItem dbState i w = (Inr (), w')"
    by (simp add: w'_def run)
  have t: "todos w' = Some rows"
    by (simp add: w'_def run toggle_absent[OF assms(3)])
  have "healthy 3 w'"
    by (rule healthy_after[of 6 3 w]) (use assms(4) in \<open>simp_all add: w'_def run\<close>)
  from list_ok[OF assms(1) t this] list_ok[OF assms(1,2) h3] c t show ?thesis
    by simp
qed

theorem toggle_missing_id_is_noop_witness:
  "db live_state = Some AsyncDuckDB \<and> todos shop = Some [milk, bread, eggs]
   \<and> 999999 \<notin> item_id ` set [milk, bread, eggs] \<and> healthy 9 shop
   \<and> (\<exists>w' rs w1 w2. toggleTodoItem live_state 999999 shop = (Inr (), w') \<and> todos w' = Some [milk, bread, eggs]
         \<and> getTodoItems live_state shop = (Inr rs, w1) \<and> getTodoItems live_state w' = (Inr rs, w2))"
proof -
  have n: "999999 \<notin> item_id ` set [milk, bread, eggs]"
    by (simp add: milk_def bread_def eggs_def)
  show ?thesis
    using live_db shop_todos healthy_shop[of 9] n
      toggle_missing_id_is_noop[OF live_db shop_todos n healthy_shop]
    by simp
qed

text \<open>
  C7, as stated, fails: \<open>toggleTodoItem\<close> writes the engine's \<open>CURRENT_TIMESTAMP\<close> into
  \<open>updated_at\<close>, and when the clock reads the same as at the previous write of the record,
  \<open>updated_at\<close> does not increase. Here \<open>milk\<close> has \<open>updated_at = 10\<close>, the clock stands at
  \<open>10\<close>, and after the toggle \<open>updated_at\<close> is still \<open>10\<close>.
\<close>

theorem toggle_same_timestamp_counterexample:
  "item_id milk = 1 \<and> updated_at milk = 10
   \<and> fst (toggleTodoItem live_state 1 still_shop) = Inr ()
   \<and> todos (snd (toggleTodoItem live_state 1 still_shop))
       = Some [\<lparr>item_id = 1, content = ''milk'', completed = True, created_at = 10, updated_at = 10\<rparr>, bread, eggs]"
proof -
  have h: "healthy 6 still_shop" and t: "todos still_shop = Some [milk, bread, eggs]"
    by (simp_all add: healthy_def resolves_def still_shop_def shop_def)
  show ?thesis
    using toggle_ok[OF live_db t h, of 1]
    by (simp add: still_shop_def shop_def milk_def bread_def eggs_def)
qed

text \<open>
  C7, amended. On a live state whose calls resolve, two calls of \<open>toggleTodoItem\<close> with the
  same id in succession leave the table as it was except for \<open>updated_at\<close> of the record with
  that id: \<open>completed\<close> is flipped by the first call and restored by the second. Each call
  sets \<open>updated_at\<close> to the clock reading at its \<open>UPDATE\<close> (\<open>t1\<close>, then \<open>t2\<close>), so
  \<open>updated_at\<close> increases on a call exactly when that reading is later than the stored value.
\<close>

theorem toggle_twice:
  assumes "db dbState = Some d" "todos w = Some rows" "healthy 12 w"
    and "t1 = clock w (length (trace w) + 2)" "t2 = clock w (length (trace w) + 8)"
  shows "\<exists>w1 w2. toggleTodoItem dbState i w = (Inr (), w1) \<and> toggleTodoItem dbState i w1 = (Inr (), w2)
     \<and> todos w1 = Some (map (\<lambda>r. if item_id r = i then r\<lparr>completed := \<not> completed r, updated_at := t1\<rparr> else r) rows)
     \<and> todos w2 = Some (map (\<lambda>r. if item_id r = i then r\<lparr>updated_at := t2\<rparr> else r) rows)"
proof -
  define w1 where "w1 = snd (toggleTodoItem dbState i w)"
  define rows1 where
    "rows1 = map (\<lambda>r. if item_id r = i then r\<lparr>completed := \<not> completed r, updated_at := t1\<rparr> else r) rows"
  have h6: "healthy 6 w"
    using healthy_mono[OF assms(3)] by simp
  note run = toggle_ok[OF assms(1,2) h6]
  have c1: "toggleTodoItem dbState i w = (Inr (), w1)"
    by (simp add: w1_def run)
  have t: "todos w1 = Some rows1"
    by (simp add: w1_def run rows1_def assms(4))
  have e: "clock w1 = clock w" "length (trace w1) = length (trace w) + 6"
    by (simp_all add: w1_def run)
  have h: "healthy 6 w1"
    by (rule healthy_after[of 6 6 w]) (use assms(3) in \<open>simp_all add: w1_def run\<close>)
  have "clock w1 (Suc (Suc (length (trace w1)))) = t2"
    by (simp add: e assms(5) add.commute)
  with toggle_ok[OF assms(1) t h, of i] c1 t show ?thesis
    by (simp add: rows1_def o_def toggle_toggle)
qed

theorem toggle_twice_witness:
  "db live_state = Some AsyncDuckDB \<and> todos shop = Some [milk, bread, eggs] \<and> healthy 12 shop
   \<and> 102 = clock shop (length (trace shop) + 2) \<and> 108 = clock shop (length (trace shop) + 8)
   \<and> (\<exists>w1 w2. toggleTodoItem live_state 2 shop = (Inr (), w1) \<and> toggleTodoItem live_state 2 w1 = (Inr (), w2)
        \<and> todos w1 = Some (map (\<lambda>r. if item_id r = 2 then r\<lparr>completed := \<not> completed r, updated_at := 102\<rparr> else r)
                             [milk, bread, eggs])
        \<and> todos w2 = Some (map (\<lambda>r. if item_id r = 2 then r\<lparr>updated_at := 108\<rparr> else r) [milk, bread, eggs]))"
proof -
  have c: "102 = clock shop (length (trace shop) + 2)" "108 = clock shop (length (trace shop) + 8)"
    by (simp_all add: shop_def)
  show ?thesis
    using live_db shop_todos healthy_shop[of 12] c
      toggle_twice[OF live_db shop_todos healthy_shop c, of 2]
    by simp
qed

subsection \<open>Adding\<close>

text \<open>
  C5, as stated, fails: \<open>addTodoItem\<close> does not look at its argument. With the empty text it
  returns without error and the table then holds a record whose content is empty.
\<close>

theorem add_empty_text_counterexample:
  "fst (addTodoItem live_state [] shop) = Inr ()
   \<and> todos (snd (addTodoItem live_state [] shop))
       = Some [milk, bread, eggs,
               \<lparr>item_id = 4, content = [], completed = False, created_at = 102, updated_at = 102\<rparr>]"
proof -
  have i: "(4::int) \<le> 2147483647" "4 \<notin> item_id ` set [milk, bread, eggs]"
    by (simp_all add: milk_def bread_def eggs_def)
  have s: "todos_id_seq shop = Some 4" "trace shop = []" "clock shop 2 = 102"
    by (simp_all add: shop_def)
  show ?thesis
    using add_ok[OF live_db shop_todos s(1) i healthy_shop, of "[]"] s(2,3)
    by (simp add: numeral_2_eq_2)
qed

text \<open>
  C5, amended. \<open>addTodoItem\<close> validates nothing: on a live state whose calls resolve, with
  the table and the sequence in place and the next id free, it returns without error for every
  text, the empty one included, and appends a record with the next id, exactly that text,
  \<open>completed = false\<close> and both timestamps equal.
\<close>

theorem add_stores_given_text:
  assumes "db dbState = Some d" "todos w = Some rows" "todos_id_seq w = Some n"
    "n \<le> 2147483647" "n \<notin> item_id ` set rows" "healthy 6 w"
  shows "\<exists>w' t. addTodoItem dbState c w = (Inr (), w')
     \<and> todos w' = Some (rows @ [\<lparr>item_id = n, content = c, completed = False, created_at = t, updated_at = t\<rparr>])"
  using add_ok[OF assms] by simp

theorem add_stores_given_text_witness:
  "db live_state = Some AsyncDuckDB \<and> todos shop = Some [milk, bread, eggs] \<and> todos_id_seq shop = Some 4
   \<and> (4::int) \<le> 2147483647 \<and> 4 \<notin> item_id ` set [milk, bread, eggs] \<and> healthy 6 shop
   \<and> (\<exists>w' t. addTodoItem live_state [] shop = (Inr (), w')
        \<and> todos w' = Some ([milk, bread, eggs]
              @ [\<lparr>item_id = 4, content = [], completed = False, created_at = t, updated_at = t\<rparr>]))"
proof -
  have i: "(4::int) \<le> 2147483647" "4 \<notin> item_id ` set [milk, bread, eggs]"
    by (simp_all add: milk_def bread_def eggs_def)
  have s: "todos_id_seq shop = Some 4"
    by (simp add: shop_def)
  show ?thesis
    using live_db shop_todos s i healthy_shop[of 6]
      add_stores_given_text[OF live_db shop_todos s i healthy_shop, of "[]"]
    by simp
qed

subsection \<open>Initialization\<close>

text \<open>
  C1. Take a run of \<open>initializeDatabase\<close> in which OPFS is detected, the path is an
  \<open>opfs://\<close> path, the worker and the engine come up, and the durable open is rejected. The
  failure of the durable open never reaches the caller: the run either returns a state with
  \<open>isOpfsSupported = false\<close> over an in-memory database with the table and the sequence in
  place, or it throws for one of the later calls (the in-memory open or the schema). When those
  later calls resolve, as in a run where only the durable open is made to fail, it returns the
  volatile state, having logged the warning and opened \<open>:memory:\<close>.
\<close>

theorem durable_open_failure_falls_back:
  assumes "isOpfsSupported_probe w"
    and "dbPath = or_default (databasePath options) ''opfs://test.db''"
    and "starts_with ''opfs://'' dbPath"
    and "resolves w 0" "resolves w 1"
    and "\<not> resolves w 2"
  shows "fst (initializeDatabase options w) \<noteq> Inl (BootstrapError (EngineError (OpenDb dbPath)))
       \<and> ((\<exists>w'. initializeDatabase options w = (Inr \<lparr>db = Some AsyncDuckDB, isOpfsSupported = False\<rparr>, w')
               \<and> opened w' = Some '':memory:'' \<and> todos w' = Some [] \<and> todos_id_seq w' = Some 1)
          \<or> (\<exists>c w'. initializeDatabase options w = (Inl (BootstrapError (EngineError c)), w')
               \<and> c \<in> {OpenDb '':memory:'', Connect, Query CreateTodosTable, Query CreateTodosIdSeq, ConnClose}))
       \<and> (resolves w 3 \<and> resolves w 4 \<and> resolves w 5 \<and> resolves w 6 \<and> resolves w 7 \<longrightarrow>
            (\<exists>w'. initializeDatabase options w = (Inr \<lparr>db = Some AsyncDuckDB, isOpfsSupported = False\<rparr>, w')
               \<and> opened w' = Some '':memory:'' \<and> todos w' = Some [] \<and> todos_id_seq w' = Some 1
               \<and> console w' = console w @ [(Warn, ''Failed to open OPFS database, falling back to in-memory:'',
                                               EngineError (OpenDb dbPath))]
               \<and> trace w' = trace w @ [(NewWorker (mainWorker (createDuckDbBundle options)), True),
                                         (Instantiate (mainModule (createDuckDbBundle options)), True),
                                         (OpenDb dbPath, False), (OpenDb '':memory:'', True), (Connect, True),
                                         (Query CreateTodosTable, True), (Query CreateTodosIdSeq, True),
                                         (ConnClose, True)]))"
proof -
  from assms(3) have ne: "dbPath \<noteq> '':memory:''"
    by (auto simp: starts_with_def)
  note outcomes = init_fallback_outcomes[OF assms]
  from outcomes ne have "fst (initializeDatabase options w) \<noteq> Inl (BootstrapError (EngineError (OpenDb dbPath)))"
    by auto
  with outcomes init_fallback[OF assms] show ?thesis
    by blast
qed

theorem durable_open_failure_falls_back_witness:
  "isOpfsSupported_probe browser
   \<and> ''opfs://test.db'' = or_default (databasePath default_options) ''opfs://test.db''
   \<and> starts_with ''opfs://'' ''opfs://test.db''
   \<and> resolves browser 0 \<and> resolves browser 1 \<and> \<not> resolves browser 2
   \<and> resolves browser 3 \<and> resolves browser 4 \<and> resolves browser 5 \<and> resolves browser 6 \<and> resolves browser 7
   \<and> fst (initializeDatabase default_options browser) = Inr \<lparr>db = Some AsyncDuckDB, isOpfsSupported = False\<rparr>
   \<and> todos (snd (initializeDatabase default_options browser)) = Some []
   \<and> todos_id_seq (snd (initializeDatabase default_options browser)) = Some 1"
proof -
  have p: "isOpfsSupported_probe browser"
    by (simp add: isOpfsSupported_probe_def browser_def)
  have o: "''opfs://test.db'' = or_default (databasePath default_options) ''opfs://test.db''"
    by (simp add: or_default_def default_options_def)
  have s: "starts_with ''opfs://'' ''opfs://test.db''"
    by (simp add: starts_with_def)
  have r: "resolves browser 0" "resolves browser 1" "\<not> resolves browser 2"
    by (simp_all add: resolves_def browser_def)
  have r': "resolves browser 3" "resolves browser 4" "resolves browser 5" "resolves browser 6" "resolves browser 7"
    by (simp_all add: resolves_def browser_def)
  show ?thesis
    using p o s r r' durable_open_failure_falls_back[OF p o s r]
    by auto
qed

subsection \<open>Shutdown\<close>

text \<open>
  C9. \<open>closeDatabase\<close> on a state whose handle is null returns without error and does
  nothing. On a live state whose connection opens and closes and whose engine terminates, it
  issues one \<open>CHECKPOINT\<close>; whether that resolves or is rejected (then a warning is logged),
  it goes on to close the connection and terminate the engine, and returns the state with a
  null handle, on which a second \<open>closeDatabase\<close> is a no-op.
\<close>

theorem closeDatabase_sequence:
  "(db dbState = None \<longrightarrow> closeDatabase dbState w = ((Inr (), dbState), w))
 \<and> (db dbState = Some d \<and> resolves w 0 \<and> resolves w 2 \<and> resolves w 3 \<longrightarrow>
      (\<exists>w'. closeDatabase dbState w = ((Inr (), dbState\<lparr>db := None\<rparr>), w')
         \<and> trace w' = trace w @ [(Connect, True), (Query Checkpoint, resolves w 1), (ConnClose, True), (Terminate, True)]
         \<and> console w' = console w @ (if resolves w 1 then []
                                       else [(Warn, ''Failed to flush database:'', EngineError (Query Checkpoint))])
         \<and> closeDatabase (dbState\<lparr>db := None\<rparr>) w' = ((Inr (), dbState\<lparr>db := None\<rparr>), w')))"
proof (intro conjI impI)
  assume "db dbState = None"
  then show "closeDatabase dbState w = ((Inr (), dbState), w)"
    by (simp add: closeDatabase_def)
next
  assume "db dbState = Some d \<and> resolves w 0 \<and> resolves w 2 \<and> resolves w 3"
  then have "db dbState = Some d" "resolves w 0" "resolves w 2" "resolves w 3"
    by simp_all
  from close_ok[OF this] show "\<exists>w'. closeDatabase dbState w = ((Inr (), dbState\<lparr>db := None\<rparr>), w')
         \<and> trace w' = trace w @ [(Connect, True), (Query Checkpoint, resolves w 1), (ConnClose, True), (Terminate, True)]
         \<and> console w' = console w @ (if resolves w 1 then []
                                       else [(Warn, ''Failed to flush database:'', EngineError (Query Checkpoint))])
         \<and> closeDatabase (dbState\<lparr>db := None\<rparr>) w' = ((Inr (), dbState\<lparr>db := None\<rparr>), w')"
    by (simp add: closeDatabase_def)
qed

theorem closeDatabase_sequence_witness:
  "db closed_state = None \<and> closeDatabase closed_state shop = ((Inr (), closed_state), shop)
   \<and> db live_state = Some AsyncDuckDB
   \<and> resolves (shop_rejecting 1) 0 \<and> \<not> resolves (shop_rejecting 1) 1
   \<and> resolves (shop_rejecting 1) 2 \<and> resolves (shop_rejecting 1) 3
   \<and> (\<exists>w'. closeDatabase live_state (shop_rejecting 1) = ((Inr (), closed_state), w')
        \<and> trace w' = [(Connect, True), (Query Checkpoint, False), (ConnClose, True), (Terminate, True)]
        \<and> console w' = [(Warn, ''Failed to flush database:'', EngineError (Query Checkpoint))]
        \<and> closeDatabase closed_state w' = ((Inr (), closed_state), w'))"
proof -
  have n: "db closed_state = None"
    by (simp add: closed_state_def)
  have r: "resolves (shop_rejecting 1) 0" "\<not> resolves (shop_rejecting 1) 1"
    "resolves (shop_rejecting 1) 2" "resolves (shop_rejecting 1) 3"
    by (simp_all add: resolves_def shop_rejecting_def shop_def)
  have e: "trace (shop_rejecting 1) = []" "console (shop_rejecting 1) = []" "live_state\<lparr>db := None\<rparr> = closed_state"
    by (simp_all add: shop_rejecting_def shop_def live_state_def closed_state_def)
  show ?thesis
    using n live_db r e
      closeDatabase_sequence[of closed_state shop AsyncDuckDB, THEN conjunct1]
      closeDatabase_sequence[of live_state "shop_rejecting 1" AsyncDuckDB, THEN conjunct2]
    by simp
qed

text \<open>
  C10. On a live state, when \<open>db.connect\<close>, \<open>conn.close\<close> or \<open>db.terminate\<close> is rejected
  during shutdown, \<open>closeDatabase\<close> throws that error and returns the state with its handle
  still set, so the record operations on it do not fail with \<open>NotInitializedError\<close>. The
  handle is null afterwards exactly when \<open>closeDatabase\<close> returned without error.
\<close>

theorem closeDatabase_failure_keeps_handle:
  assumes "db dbState = Some d"
  shows "(\<not> resolves w 0 \<or> \<not> resolves w 2 \<or> \<not> resolves w 3 \<longrightarrow>
           (\<exists>e w'. closeDatabase dbState w = ((Inl e, dbState), w')
              \<and> e = EngineError (if \<not> resolves w 0 then Connect else if \<not> resolves w 2 then ConnClose else Terminate)
              \<and> fst (addTodoItem dbState c w') \<noteq> Inl NotInitializedError
              \<and> fst (getTodoItems dbState w') \<noteq> Inl NotInitializedError
              \<and> fst (toggleTodoItem dbState i w') \<noteq> Inl NotInitializedError
              \<and> fst (clearTodoItems dbState w') \<noteq> Inl NotInitializedError
              \<and> fst (clearCompletedTodoItems dbState w') \<noteq> Inl NotInitializedError))
       \<and> (\<forall>r s' w'. closeDatabase dbState w = ((r, s'), w') \<longrightarrow> (db s' = None) = (r = Inr ()))"
proof (intro conjI impI allI)
  assume f: "\<not> resolves w 0 \<or> \<not> resolves w 2 \<or> \<not> resolves w 3"
  let ?e = "EngineError (if \<not> resolves w 0 then Connect else if \<not> resolves w 2 then ConnClose else Terminate)"
  have "\<exists>w'. closeDatabase dbState w = ((Inl ?e, dbState), w')"
  proof (cases "resolves w 0")
    case False
    with close_connect_fails[OF assms] show ?thesis by auto
  next
    case r0: True
    show ?thesis
    proof (cases "resolves w 2")
      case False
      with r0 close_connclose_fails[OF assms] show ?thesis by auto
    next
      case True
      with r0 f close_terminate_fails[OF assms] show ?thesis by auto
    qed
  qed
  then show "\<exists>e w'. closeDatabase dbState w = ((Inl e, dbState), w')
              \<and> e = ?e
              \<and> fst (addTodoItem dbState c w') \<noteq> Inl NotInitializedError
              \<and> fst (getTodoItems dbState w') \<noteq> Inl NotInitializedError
              \<and> fst (toggleTodoItem dbState i w') \<noteq> Inl NotInitializedError
              \<and> fst (clearTodoItems dbState w') \<noteq> Inl NotInitializedError
              \<and> fst (clearCompletedTodoItems dbState w') \<noteq> Inl NotInitializedError"
    using live_not_rejected[OF assms] by blast
next
  fix r s' w'
  assume "closeDatabase dbState w = ((r, s'), w')"
  from close_result_shape[OF assms this] assms show "(db s' = None) = (r = Inr ())"
    by auto
qed

theorem closeDatabase_failure_keeps_handle_witness:
  "db live_state = Some AsyncDuckDB
   \<and> \<not> resolves (shop_rejecting 0) 0 \<and> \<not> resolves (shop_rejecting 2) 2 \<and> \<not> resolves (shop_rejecting 3) 3
   \<and> fst (closeDatabase live_state (shop_rejecting 0)) = (Inl (EngineError Connect), live_state)
   \<and> fst (closeDatabase live_state (shop_rejecting 2)) = (Inl (EngineError ConnClose), live_state)
   \<and> fst (closeDatabase live_state (shop_rejecting 3)) = (Inl (EngineError Terminate), live_state)
   \<and> fst (getTodoItems live_state (snd (closeDatabase live_state (shop_rejecting 3)))) \<noteq> Inl NotInitializedError
   \<and> fst (closeDatabase live_state shop) = (Inr (), closed_state) \<and> db closed_state = None"
proof -
  have r: "\<not> resolves (shop_rejecting 0) 0" "\<not> resolves (shop_rejecting 2) 2" "\<not> resolves (shop_rejecting 3) 3"
    "resolves (shop_rejecting 2) 0" "resolves (shop_rejecting 3) 0" "resolves (shop_rejecting 3) 2"
    by (simp_all add: resolves_def shop_rejecting_def shop_def)
  have c: "fst (closeDatabase live_state shop) = (Inr (), closed_state)" "db closed_state = None"
    using close_ok[of live_state AsyncDuckDB shop]
    by (simp_all add: live_state_def closed_state_def resolves_def shop_def)
  note t = closeDatabase_failure_keeps_handle[OF live_db, THEN conjunct1, rule_format]
  show ?thesis
    using live_db r c t[of "shop_rejecting 0" "''tea''" 1] t[of "shop_rejecting 2" "''tea''" 1]
      t[of "shop_rejecting 3" "''tea''" 1]
      closeDatabase_failure_keeps_handle[OF live_db, THEN conjunct2, rule_format,
        of shop "Inr ()" closed_state "snd (closeDatabase live_state shop)"]
    by auto
qed

end
